theory Spec2Isabelle
  imports Complex_Main
begin

section \<open>Python values and string operations used by the import script\<close>

text \<open>
  The script \<^verbatim>\<open>scripts/import_osm_and_census_data.py\<close> is embedded function by
  function. Python strings are modelled as \<^typ>\<open>string\<close>, with characters read as
  code points below 256; Python floats are modelled as \<^typ>\<open>real\<close> (exact arithmetic,
  no rounding); Python integers as \<^typ>\<open>int\<close>. Exceptions are values of \<open>py_error\<close>
  on the left of a sum.
\<close>

datatype py_error = ValueError | IndexError | OverflowError | ZeroDivisionError | DatabaseError

definition backslash :: char where
  "backslash = CHR 0x5C"

definition tab :: char where
  "tab = CHR 0x09"

definition newline :: char where
  "newline = CHR 0x0A"

definition space :: char where
  "space = CHR 0x20"

text \<open>
  \<^verbatim>\<open>s.replace(old, new)\<close>: every non-overlapping occurrence of \<open>old\<close>, found from the
  left, is replaced; an empty \<open>old\<close> matches before every character and at the end.
\<close>

fun str_replace :: "string \<Rightarrow> string \<Rightarrow> string \<Rightarrow> string" where
  "str_replace old new [] = (if old = [] then new else [])"
| "str_replace old new (c # cs) =
     (if old = [] then new @ c # str_replace old new cs
      else if take (length old) (c # cs) = old
        then new @ str_replace old new (drop (length old - 1) cs)
      else c # str_replace old new cs)"

section \<open>escape\_tsv\<close>

text \<open>
  \<^verbatim>\<open>
  def escape_tsv(v):
      if v is None:
          return '\\N'
      s = str(v)
      return s.replace('\\', '\\\\').replace('\t', ' ').replace('\n', ' ')
  \<close>
  The argument is \<open>None\<close> or \<open>Some s\<close> with \<open>s\<close> the text \<^verbatim>\<open>str(v)\<close> of the value.
\<close>

definition null_sentinel :: string where
  "null_sentinel = [backslash, CHR ''N'']"

definition escape_tsv :: "string option \<Rightarrow> string" where
  "escape_tsv v =
     (case v of
        None \<Rightarrow> null_sentinel
      | Some s \<Rightarrow>
          str_replace [newline] [space]
            (str_replace [tab] [space]
              (str_replace [backslash] [backslash, backslash] s)))"

section \<open>Bulk insert: copy\_to\_table\<close>

text \<open>\<^verbatim>\<open>sep.join(xs)\<close>.\<close>

fun str_join :: "string \<Rightarrow> string list \<Rightarrow> string" where
  "str_join sep [] = []"
| "str_join sep [x] = x"
| "str_join sep (x # y # ys) = x @ sep @ str_join sep (y # ys)"

text \<open>
  The text written to the \<^verbatim>\<open>StringIO\<close> buffer by the loop of \<^verbatim>\<open>copy_to_table\<close>: one
  line per row, the escaped fields joined by tabs, each line ended by a newline.
\<close>

definition tsv_buffer :: "string option list list \<Rightarrow> string" where
  "tsv_buffer data = concat (map (\<lambda>row. str_join [tab] (map escape_tsv row) @ [newline]) data)"

text \<open>
  \<^verbatim>\<open>
  def copy_to_table(cur, table, columns, data, desc=None):
      if not data:
          return 0
      buffer = io.StringIO()
      for row in tqdm(data, desc=desc, disable=desc is None):
          line = '\t'.join(escape_tsv(v) for v in row)
          buffer.write(line + '\n')
      buffer.seek(0)
      cur.copy_from(buffer, table, columns=columns, null='\\N')
      return len(data)
  \<close>
  The database cursor belongs to psycopg2, so its \<^verbatim>\<open>copy_from\<close> is a parameter: from
  the state of the cursor, the buffer, the table, the columns and the null marker it
  gives the new state, or the error it raises. The function returns its result together
  with the state of the cursor.
\<close>

type_synonym 'cur copy_from =
  "'cur \<Rightarrow> string \<Rightarrow> string \<Rightarrow> string list \<Rightarrow> string \<Rightarrow> py_error + 'cur"

definition copy_to_table ::
  "'cur copy_from \<Rightarrow> 'cur \<Rightarrow> string \<Rightarrow> string list \<Rightarrow> string option list list
     \<Rightarrow> py_error + (int \<times> 'cur)" where
  "copy_to_table copy_from cur table columns data =
     (if data = [] then Inr (0, cur)
      else
        (case copy_from cur (tsv_buffer data) table columns null_sentinel of
           Inl e \<Rightarrow> Inl e
         | Inr cur' \<Rightarrow> Inr (int (length data), cur')))"

text \<open>
  Two cursors for running the function: one that appends every COPY to a log of
  (table, buffer) pairs, and one whose COPY always fails.
\<close>

definition logging_copy_from :: "((string \<times> string) list) copy_from" where
  "logging_copy_from cur buffer table columns null = Inr (cur @ [(table, buffer)])"

definition failing_copy_from :: "((string \<times> string) list) copy_from" where
  "failing_copy_from cur buffer table columns null = Inl DatabaseError"

section \<open>The single-pass handler\<close>

definition HIGHWAY_TYPES :: "string set" where
  "HIGHWAY_TYPES =
     {''motorway'', ''motorway_link'', ''trunk'', ''trunk_link'',
      ''primary'', ''primary_link'', ''secondary'', ''secondary_link''}"

definition DEFAULT_SPEEDS :: "string \<rightharpoonup> int" where
  "DEFAULT_SPEEDS =
     map_of
       [(''motorway'', 70), (''motorway_link'', 50), (''trunk'', 65), (''trunk_link'', 45),
        (''primary'', 55), (''primary_link'', 35), (''secondary'', 45), (''secondary_link'', 30)]"

definition TOURISM_TYPES :: "string set" where
  "TOURISM_TYPES =
     {''museum'', ''attraction'', ''viewpoint'', ''artwork'',
      ''gallery'', ''theme_park'', ''zoo'', ''aquarium'',
      ''hotel'', ''motel'', ''hostel'', ''guest_house'',
      ''camp_site'', ''caravan_site'', ''picnic_site'',
      ''information'', ''yes''}"

text \<open>
  The entities osmium hands to the callbacks: a node with its id, tags and location, a
  way with its id, tags and the references of its nodes (\<^verbatim>\<open>[n.ref for n in w.nodes]\<close>).
\<close>

record osm_node =
  node_id :: int
  node_tags :: "string \<rightharpoonup> string"
  node_lat :: real
  node_lon :: real

record osm_way =
  way_id :: int
  way_tags :: "string \<rightharpoonup> string"
  way_refs :: "int list"

datatype osm_entity = Node osm_node | Way osm_way

text \<open>
  An entry of \<^verbatim>\<open>handler.ways\<close> is the tuple
  \<^verbatim>\<open>(osm_id, node_ids, highway, name, oneway, maxspeed)\<close>; an entry of
  \<^verbatim>\<open>handler.tourist_attractions\<close> is \<^verbatim>\<open>(osm_id, name, type, lat, lon)\<close>.
\<close>

type_synonym way_entry = "int \<times> int list \<times> string \<times> string \<times> bool \<times> string"

type_synonym attraction_entry = "int \<times> string \<times> string \<times> real \<times> real"

definition entry_node_ids :: "way_entry \<Rightarrow> int list" where
  "entry_node_ids w = (case w of (osm_id, node_ids, highway, name, oneway, maxspeed) \<Rightarrow> node_ids)"

definition entry_way_id :: "way_entry \<Rightarrow> int" where
  "entry_way_id w = (case w of (osm_id, node_ids, highway, name, oneway, maxspeed) \<Rightarrow> osm_id)"

definition entry_highway :: "way_entry \<Rightarrow> string" where
  "entry_highway w = (case w of (osm_id, node_ids, highway, name, oneway, maxspeed) \<Rightarrow> highway)"

definition entry_maxspeed :: "way_entry \<Rightarrow> string" where
  "entry_maxspeed w = (case w of (osm_id, node_ids, highway, name, oneway, maxspeed) \<Rightarrow> maxspeed)"

text \<open>The node ids that the node lists of a list of ways mention.\<close>

definition referenced_ids :: "way_entry list \<Rightarrow> int set" where
  "referenced_ids ws = (\<Union>w \<in> set ws. set (entry_node_ids w))"

record handler =
  node_coords :: "int \<rightharpoonup> real \<times> real"
  ways :: "way_entry list"
  tourist_attractions :: "attraction_entry list"
  road_node_ids :: "int set"
  node_count :: nat

definition OSMHandler_init :: handler where
  "OSMHandler_init =
     \<lparr>node_coords = Map.empty, ways = [], tourist_attractions = [],
      road_node_ids = {}, node_count = 0\<rparr>"

text \<open>
  \<^verbatim>\<open>
  def node(self, n):
      self._node_count += 1
      tourism = n.tags.get('tourism')
      if tourism in TOURISM_TYPES:
          name = n.tags.get('name', f'Unnamed {tourism}')
          self.tourist_attractions.append((n.id, name, tourism, n.location.lat, n.location.lon))
      self.node_coords[n.id] = (n.location.lat, n.location.lon)
  \<close>
\<close>

definition node :: "handler \<Rightarrow> osm_node \<Rightarrow> handler" where
  "node self n =
     (let self1 = self\<lparr>node_count := node_count self + 1\<rparr>;
          self2 =
            (case node_tags n ''tourism'' of
               None \<Rightarrow> self1
             | Some tourism \<Rightarrow>
                 if tourism \<in> TOURISM_TYPES then
                   (let name = (case node_tags n ''name'' of
                                  None \<Rightarrow> ''Unnamed '' @ tourism
                                | Some x \<Rightarrow> x)
                    in self1\<lparr>tourist_attractions :=
                         tourist_attractions self1 @
                           [(node_id n, name, tourism, node_lat n, node_lon n)]\<rparr>)
                 else self1)
      in self2\<lparr>node_coords := (node_coords self2)(node_id n \<mapsto> (node_lat n, node_lon n))\<rparr>)"

text \<open>
  \<^verbatim>\<open>
  def way(self, w):
      highway = w.tags.get('highway')
      if highway in HIGHWAY_TYPES:
          node_ids = [n.ref for n in w.nodes]
          self.road_node_ids.update(node_ids)
          name = w.tags.get('name', '')
          oneway = w.tags.get('oneway', 'no') == 'yes'
          maxspeed = w.tags.get('maxspeed', '')
          self.ways.append((w.id, node_ids, highway, name, oneway, maxspeed))
  \<close>
\<close>

definition way :: "handler \<Rightarrow> osm_way \<Rightarrow> handler" where
  "way self w =
     (case way_tags w ''highway'' of
        None \<Rightarrow> self
      | Some highway \<Rightarrow>
          if highway \<in> HIGHWAY_TYPES then
            (let node_ids = way_refs w;
                 self1 = self\<lparr>road_node_ids := road_node_ids self \<union> set node_ids\<rparr>;
                 name = (case way_tags w ''name'' of None \<Rightarrow> '''' | Some x \<Rightarrow> x);
                 oneway = ((case way_tags w ''oneway'' of None \<Rightarrow> ''no'' | Some x \<Rightarrow> x) = ''yes'');
                 maxspeed = (case way_tags w ''maxspeed'' of None \<Rightarrow> '''' | Some x \<Rightarrow> x)
             in self1\<lparr>ways := ways self1 @ [(way_id w, node_ids, highway, name, oneway, maxspeed)]\<rparr>)
          else self)"

text \<open>
  \<^verbatim>\<open>handler.apply_file(...)\<close>: osmium calls \<^verbatim>\<open>node\<close> or \<^verbatim>\<open>way\<close> for every entity of
  the file, in the order of the file.
\<close>

fun apply_file :: "handler \<Rightarrow> osm_entity list \<Rightarrow> handler" where
  "apply_file self [] = self"
| "apply_file self (Node n # es) = apply_file (node self n) es"
| "apply_file self (Way w # es) = apply_file (way self w) es"

text \<open>The ids of the nodes that a file contains.\<close>

fun file_node_ids :: "osm_entity list \<Rightarrow> int set" where
  "file_node_ids [] = {}"
| "file_node_ids (Node n # es) = insert (node_id n) (file_node_ids es)"
| "file_node_ids (Way w # es) = file_node_ids es"

text \<open>
  The block of \<^verbatim>\<open>main\<close> that frees the coordinates no road needs:
  \<^verbatim>\<open>
  needed_nodes = handler.road_node_ids
  handler.node_coords = {k: v for k, v in handler.node_coords.items() if k in needed_nodes}
  \<close>
\<close>

definition main_free_unused_nodes :: "handler \<Rightarrow> handler" where
  "main_free_unused_nodes h =
     (let needed_nodes = road_node_ids h
      in h\<lparr>node_coords := (\<lambda>k. if k \<in> needed_nodes then node_coords h k else None)\<rparr>)"

text \<open>Extraction followed by reclamation, as \<^verbatim>\<open>main\<close> runs them.\<close>

definition main_extract :: "osm_entity list \<Rightarrow> handler" where
  "main_extract es = main_free_unused_nodes (apply_file OSMHandler_init es)"

text \<open>A file with one motorway whose nodes are not in the file.\<close>

definition dangling_way_file :: "osm_entity list" where
  "dangling_way_file =
     [Way \<lparr>way_id = 1, way_tags = [''highway'' \<mapsto> ''motorway''], way_refs = [10, 11]\<rparr>]"

text \<open>
  A file with three nodes, one of them a museum, a motorway over two of the nodes and a
  footpath.
\<close>

definition small_file :: "osm_entity list" where
  "small_file =
     [Node \<lparr>node_id = 10, node_tags = Map.empty, node_lat = 34, node_lon = -86\<rparr>,
      Node \<lparr>node_id = 11, node_tags = Map.empty, node_lat = 34, node_lon = -86\<rparr>,
      Node \<lparr>node_id = 12, node_tags = [''tourism'' \<mapsto> ''museum''], node_lat = 33, node_lon = -87\<rparr>,
      Way \<lparr>way_id = 1, way_tags = [''highway'' \<mapsto> ''motorway''], way_refs = [10, 11]\<rparr>,
      Way \<lparr>way_id = 2, way_tags = [''highway'' \<mapsto> ''footway''], way_refs = [11, 12]\<rparr>]"

section \<open>Parsing the speed limit\<close>

text \<open>
  \<^verbatim>\<open>str.isspace\<close> on a code point below 256: the characters \<^verbatim>\<open>str.strip()\<close> and
  \<^verbatim>\<open>str.split()\<close> treat as whitespace.
\<close>

definition isspace :: "char \<Rightarrow> bool" where
  "isspace c = ((of_char c :: nat) \<in> {9, 10, 11, 12, 13, 28, 29, 30, 31, 32, 133, 160})"

definition py_strip :: "string \<Rightarrow> string" where
  "py_strip s = rev (dropWhile isspace (rev (dropWhile isspace s)))"

text \<open>
  \<^verbatim>\<open>s.split()\<close>: the maximal runs of characters that are not whitespace. The first
  argument is the run read so far, reversed.
\<close>

fun split_run :: "string \<Rightarrow> string \<Rightarrow> string list" where
  "split_run run [] = (if run = [] then [] else [rev run])"
| "split_run run (c # cs) =
     (if isspace c then (if run = [] then split_run [] cs else rev run # split_run [] cs)
      else split_run (c # run) cs)"

definition py_split :: "string \<Rightarrow> string list" where
  "py_split s = split_run [] s"

text \<open>
  The value of a Python float: a finite number (read as a real, see above), an infinity
  with its sign, or not-a-number.
\<close>

datatype py_float = Finite real | Infinity bool | NaN

definition isdigit :: "char \<Rightarrow> bool" where
  "isdigit c = (48 \<le> (of_char c :: nat) \<and> (of_char c :: nat) \<le> 57)"

definition digits_value :: "string \<Rightarrow> nat" where
  "digits_value ds = foldl (\<lambda>acc c. 10 * acc + (of_char c - 48)) 0 ds"

text \<open>
  Underscores in a numeric literal: allowed only between two digits, and removed before
  the number is read. The first argument is the previous character.
\<close>

fun remove_underscores :: "char \<Rightarrow> string \<Rightarrow> string option" where
  "remove_underscores prev [] = (if prev = CHR ''_'' then None else Some [])"
| "remove_underscores prev (c # cs) =
     (if c = CHR ''_'' then (if isdigit prev then remove_underscores c cs else None)
      else if prev = CHR ''_'' \<and> \<not> isdigit c then None
      else map_option ((#) c) (remove_underscores c cs))"

text \<open>Matching a lower-case word without regard to the case of the text.\<close>

definition same_letter :: "char \<Rightarrow> char \<Rightarrow> bool" where
  "same_letter p c =
     (c = p \<or> (65 \<le> (of_char c :: nat) \<and> (of_char c :: nat) \<le> 90
                 \<and> (of_char c :: nat) + 32 = of_char p))"

definition matches_word :: "string \<Rightarrow> string \<Rightarrow> bool" where
  "matches_word word s = list_all2 same_letter word s"

definition split_sign :: "string \<Rightarrow> bool \<times> string" where
  "split_sign s =
     (case s of
        [] \<Rightarrow> (False, [])
      | c # cs \<Rightarrow> if c = CHR ''-'' then (True, cs) else if c = CHR ''+'' then (False, cs)
                  else (False, s))"

text \<open>
  The largest finite float is \<open>2 ^ 1024 - 2 ^ 971\<close>; a decimal value of magnitude at
  least \<open>2 ^ 1024 - 2 ^ 970\<close> is read as an infinity.
\<close>

definition float_overflow_bound :: real where
  "float_overflow_bound = 2 ^ 1024 - 2 ^ 970"

definition finite_or_infinity :: "bool \<Rightarrow> real \<Rightarrow> py_float" where
  "finite_or_infinity neg x =
     (if float_overflow_bound \<le> x then Infinity neg
      else Finite (if neg then - x else x))"

text \<open>
  The number \<open>m * 10 ^ e\<close> for a natural \<open>m\<close> and an integer \<open>e\<close>.
\<close>

definition scale10 :: "nat \<Rightarrow> int \<Rightarrow> real" where
  "scale10 m e = (if 0 \<le> e then of_nat m * 10 ^ nat e else of_nat m / 10 ^ nat (- e))"

text \<open>
  An unsigned decimal literal: digits, optionally a point and more digits, with at
  least one digit in all, then optionally \<^verbatim>\<open>e\<close> or \<^verbatim>\<open>E\<close>, a sign and at least one
  digit. \<open>None\<close> when the text is not such a literal.
\<close>

definition parse_decimal :: "string \<Rightarrow> (nat \<times> int) option" where
  "parse_decimal s =
     (let int_digits = takeWhile isdigit s;
          rest1 = dropWhile isdigit s;
          frac_digits = (if rest1 \<noteq> [] \<and> hd rest1 = CHR ''.'' then takeWhile isdigit (tl rest1) else []);
          rest2 = (if rest1 \<noteq> [] \<and> hd rest1 = CHR ''.'' then dropWhile isdigit (tl rest1) else rest1);
          mantissa = digits_value (int_digits @ frac_digits);
          shift = - int (length frac_digits)
      in if int_digits = [] \<and> frac_digits = [] then None
         else if rest2 = [] then Some (mantissa, shift)
         else if hd rest2 = CHR ''e'' \<or> hd rest2 = CHR ''E'' then
           (let (neg, exp_digits) = split_sign (tl rest2)
            in if exp_digits \<noteq> [] \<and> list_all isdigit exp_digits then
                 Some (mantissa,
                       shift + (if neg then - int (digits_value exp_digits)
                                else int (digits_value exp_digits)))
               else None)
         else None)"

text \<open>
  The whitespace that \<^verbatim>\<open>float(s)\<close> trims from both ends of its argument.
\<close>

definition float_space :: "char \<Rightarrow> bool" where
  "float_space c = ((of_char c :: nat) \<in> {9, 10, 11, 12, 13, 32, 133, 160})"

text \<open>
  \<^verbatim>\<open>float(s)\<close> on a string: surrounding whitespace is trimmed, underscores between
  digits are dropped, then the text is a sign followed by \<^verbatim>\<open>inf\<close>, \<^verbatim>\<open>infinity\<close> or
  \<^verbatim>\<open>nan\<close> in any case, or by a decimal literal; anything else raises ValueError. The
  value of a literal is exact here, where CPython rounds it to the nearest double.
\<close>

definition float_of_str :: "string \<Rightarrow> py_error + py_float" where
  "float_of_str s =
     (case remove_underscores (CHR 0x00)
             (rev (dropWhile float_space (rev (dropWhile float_space s)))) of
        None \<Rightarrow> Inl ValueError
      | Some t \<Rightarrow>
          (let (neg, body) = split_sign t
           in if matches_word ''inf'' body \<or> matches_word ''infinity'' body then Inr (Infinity neg)
              else if matches_word ''nan'' body then Inr NaN
              else
                (case parse_decimal body of
                   None \<Rightarrow> Inl ValueError
                 | Some (m, e) \<Rightarrow> Inr (finite_or_infinity neg (scale10 m e)))))"

text \<open>
  \<^verbatim>\<open>int(x)\<close> on a float: truncation towards zero; an infinity raises OverflowError and
  not-a-number raises ValueError.
\<close>

definition int_of_float :: "py_float \<Rightarrow> py_error + int" where
  "int_of_float x =
     (case x of
        Finite r \<Rightarrow> Inr (if 0 \<le> r then \<lfloor>r\<rfloor> else \<lceil>r\<rceil>)
      | Infinity neg \<Rightarrow> Inl OverflowError
      | NaN \<Rightarrow> Inl ValueError)"

text \<open>
  The expression inside the \<^verbatim>\<open>try\<close> of \<^verbatim>\<open>create_road_segments\<close>:
  \<^verbatim>\<open>int(float(maxspeed_str.replace('mph', '').strip().split()[0]))\<close>.
\<close>

definition parse_maxspeed :: "string \<Rightarrow> py_error + int" where
  "parse_maxspeed maxspeed_str =
     (case py_split (py_strip (str_replace ''mph'' '''' maxspeed_str)) of
        [] \<Rightarrow> Inl IndexError
      | token # _ \<Rightarrow>
          (case float_of_str token of
             Inl e \<Rightarrow> Inl e
           | Inr x \<Rightarrow> int_of_float x))"

text \<open>
  The speed of a way, as the head of the loop of \<^verbatim>\<open>create_road_segments\<close> resolves it:
  \<^verbatim>\<open>
  speed = DEFAULT_SPEEDS.get(highway, 45)
  if maxspeed_str:
      try:
          speed = int(float(maxspeed_str.replace('mph', '').strip().split()[0]))
      except (ValueError, IndexError):
          pass
  \<close>
  Only ValueError and IndexError are caught; any other exception leaves the function.
\<close>

definition default_speed :: "string \<Rightarrow> int" where
  "default_speed highway = (case DEFAULT_SPEEDS highway of None \<Rightarrow> 45 | Some v \<Rightarrow> v)"

definition resolve_speed :: "string \<Rightarrow> string \<Rightarrow> py_error + int" where
  "resolve_speed highway maxspeed_str =
     (let speed = default_speed highway
      in if maxspeed_str \<noteq> [] then
           (case parse_maxspeed maxspeed_str of
              Inr v \<Rightarrow> Inr v
            | Inl e \<Rightarrow> if e = ValueError \<or> e = IndexError then Inr speed else Inl e)
         else Inr speed)"

section \<open>Geometry\<close>

definition radians :: "real \<Rightarrow> real" where
  "radians x = x * (pi / 180)"

text \<open>\<^verbatim>\<open>math.sqrt\<close> raises ValueError on a negative argument.\<close>

definition py_sqrt :: "real \<Rightarrow> py_error + real" where
  "py_sqrt x = (if x < 0 then Inl ValueError else Inr (sqrt x))"

text \<open>\<^verbatim>\<open>math.atan2(y, x)\<close>: the angle of the point \<open>(x, y)\<close>, in \<open>(-pi, pi]\<close>.\<close>

definition atan2 :: "real \<Rightarrow> real \<Rightarrow> real" where
  "atan2 y x =
     (if 0 < x then arctan (y / x)
      else if x < 0 \<and> 0 \<le> y then arctan (y / x) + pi
      else if x < 0 then arctan (y / x) - pi
      else if 0 < y then pi / 2
      else if y < 0 then - (pi / 2)
      else 0)"

text \<open>
  \<^verbatim>\<open>
  def haversine_distance(lat1, lon1, lat2, lon2):
      earth_radius_miles = 3958.8
      dlat = math.radians(lat2 - lat1)
      dlon = math.radians(lon2 - lon1)
      a = (math.sin(dlat/2)**2 +
           math.cos(math.radians(lat1)) * math.cos(math.radians(lat2)) *
           math.sin(dlon/2)**2)
      c = 2 * math.atan2(math.sqrt(a), math.sqrt(1-a))
      return earth_radius_miles * c
  \<close>
\<close>

definition haversine_distance :: "real \<Rightarrow> real \<Rightarrow> real \<Rightarrow> real \<Rightarrow> py_error + real" where
  "haversine_distance lat1 lon1 lat2 lon2 =
     (let earth_radius_miles = 3958.8;
          dlat = radians (lat2 - lat1);
          dlon = radians (lon2 - lon1);
          a = (sin (dlat / 2))\<^sup>2 +
              cos (radians lat1) * cos (radians lat2) * (sin (dlon / 2))\<^sup>2
      in case py_sqrt a of
           Inl e \<Rightarrow> Inl e
         | Inr root_a \<Rightarrow>
             (case py_sqrt (1 - a) of
                Inl e \<Rightarrow> Inl e
              | Inr root_b \<Rightarrow> Inr (earth_radius_miles * (2 * atan2 root_a root_b))))"

text \<open>
  The distance that \<^verbatim>\<open>haversine_distance\<close> returns when neither square root raises.
\<close>

definition haversine_miles :: "real \<Rightarrow> real \<Rightarrow> real \<Rightarrow> real \<Rightarrow> real" where
  "haversine_miles lat1 lon1 lat2 lon2 =
     (let a = (sin (radians (lat2 - lat1) / 2))\<^sup>2 +
              cos (radians lat1) * cos (radians lat2) * (sin (radians (lon2 - lon1) / 2))\<^sup>2
      in 3958.8 * (2 * atan2 (sqrt a) (sqrt (1 - a))))"

section \<open>Segment synthesis: create\_road\_segments\<close>

text \<open>A row written to the buffer of \<^verbatim>\<open>create_road_segments\<close>, field by field.\<close>

record road_segment =
  seg_way_id :: int
  start_node :: int
  end_node :: int
  seg_name :: string
  highway_type :: string
  length_miles :: real
  speed_mph :: int
  travel_time_s :: real
  seg_oneway :: bool

text \<open>A float divided by an integer: ZeroDivisionError when the integer is zero.\<close>

definition py_truediv :: "real \<Rightarrow> int \<Rightarrow> py_error + real" where
  "py_truediv x n = (if n = 0 then Inl ZeroDivisionError else Inr (x / of_int n))"

text \<open>
  The inner loop, over the indices \<^verbatim>\<open>range(len(node_ids) - 1)\<close>:
  \<^verbatim>\<open>
  for i in range(len(node_ids) - 1):
      start_id = node_ids[i]
      end_id = node_ids[i + 1]
      if start_id in handler.node_coords and end_id in handler.node_coords:
          lat1, lon1 = handler.node_coords[start_id]
          lat2, lon2 = handler.node_coords[end_id]
          length_miles = haversine_distance(lat1, lon1, lat2, lon2)
          travel_time_s = length_miles / speed * 3600
          name_escaped = escape_tsv(name)
          buffer.write(...)
          segment_count += 1
  \<close>
\<close>

fun segments_loop ::
  "(int \<rightharpoonup> real \<times> real) \<Rightarrow> way_entry \<Rightarrow> int \<Rightarrow> nat list \<Rightarrow> py_error + road_segment list" where
  "segments_loop coords w speed [] = Inr []"
| "segments_loop coords w speed (i # is) =
     (case w of (wid, node_ids, highway, name, oneway, maxspeed_str) \<Rightarrow>
        (let start_id = node_ids ! i;
             end_id = node_ids ! (i + 1)
         in case (coords start_id, coords end_id) of
              (Some (lat1, lon1), Some (lat2, lon2)) \<Rightarrow>
                (case haversine_distance lat1 lon1 lat2 lon2 of
                   Inl e \<Rightarrow> Inl e
                 | Inr len \<Rightarrow>
                     (case py_truediv len speed of
                        Inl e \<Rightarrow> Inl e
                      | Inr q \<Rightarrow>
                          (case segments_loop coords w speed is of
                             Inl e \<Rightarrow> Inl e
                           | Inr segs \<Rightarrow>
                               Inr (\<lparr>seg_way_id = wid, start_node = start_id, end_node = end_id,
                                     seg_name = escape_tsv (Some name), highway_type = highway,
                                     length_miles = len, speed_mph = speed,
                                     travel_time_s = q * 3600, seg_oneway = oneway\<rparr> # segs))))
            | _ \<Rightarrow> segments_loop coords w speed is))"

text \<open>The body of the outer loop for one way: its speed, then its segments.\<close>

definition way_segments :: "(int \<rightharpoonup> real \<times> real) \<Rightarrow> way_entry \<Rightarrow> py_error + road_segment list" where
  "way_segments coords w =
     (case w of (wid, node_ids, highway, name, oneway, maxspeed_str) \<Rightarrow>
        (case resolve_speed highway maxspeed_str of
           Inl e \<Rightarrow> Inl e
         | Inr speed \<Rightarrow> segments_loop coords w speed [0..<length node_ids - 1]))"

fun ways_loop :: "(int \<rightharpoonup> real \<times> real) \<Rightarrow> way_entry list \<Rightarrow> py_error + road_segment list" where
  "ways_loop coords [] = Inr []"
| "ways_loop coords (w # ws) =
     (case way_segments coords w of
        Inl e \<Rightarrow> Inl e
      | Inr segs \<Rightarrow>
          (case ways_loop coords ws of
             Inl e \<Rightarrow> Inl e
           | Inr rest \<Rightarrow> Inr (segs @ rest)))"

text \<open>
  \<^verbatim>\<open>create_road_segments(handler, cur)\<close>: the rows the function has written to its
  buffer when the loops end, which it then hands to \<^verbatim>\<open>cur.copy_from\<close>; an exception
  raised in a loop leaves the function before anything is copied.
\<close>

definition create_road_segments :: "handler \<Rightarrow> py_error + road_segment list" where
  "create_road_segments h = ways_loop (node_coords h) (ways h)"

text \<open>The consecutive pairs of a list of node ids.\<close>

definition consecutive_pairs :: "int list \<Rightarrow> (int \<times> int) list" where
  "consecutive_pairs node_ids = zip node_ids (tl node_ids)"

text \<open>
  A file for running the pipeline: two nodes of the motorway I-65, and the motorway over
  them and over a third node that the file does not contain, with a given
  \<^verbatim>\<open>maxspeed\<close> tag.
\<close>

definition motorway_file :: "string \<Rightarrow> osm_entity list" where
  "motorway_file maxspeed =
     [Node \<lparr>node_id = 1001, node_tags = Map.empty, node_lat = 34.730, node_lon = -86.586\<rparr>,
      Node \<lparr>node_id = 1002, node_tags = Map.empty, node_lat = 34.606, node_lon = -86.983\<rparr>,
      Way \<lparr>way_id = 7,
           way_tags = [''highway'' \<mapsto> ''motorway'', ''name'' \<mapsto> ''I-65'', ''maxspeed'' \<mapsto> maxspeed],
           way_refs = [1001, 1002, 1003]\<rparr>]"

text \<open>The one segment of that motorway whose two ends have coordinates, at 55 mph.\<close>

definition motorway_segment :: road_segment where
  "motorway_segment =
     \<lparr>seg_way_id = 7, start_node = 1001, end_node = 1002, seg_name = ''I-65'',
      highway_type = ''motorway'',
      length_miles = haversine_miles 34.730 (-86.586) 34.606 (-86.983),
      speed_mph = 55,
      travel_time_s = haversine_miles 34.730 (-86.586) 34.606 (-86.983) / 55 * 3600,
      seg_oneway = False\<rparr>"

text \<open>
  The same file with a second way after the motorway: a secondary link without a speed
  limit, over the two nodes in the other direction.
\<close>

definition two_way_file :: "string \<Rightarrow> osm_entity list" where
  "two_way_file maxspeed =
     motorway_file maxspeed @
     [Way \<lparr>way_id = 8, way_tags = [''highway'' \<mapsto> ''secondary_link''], way_refs = [1002, 1001]\<rparr>]"

text \<open>The segment of that link, at the default speed of its category.\<close>

definition link_segment :: road_segment where
  "link_segment =
     \<lparr>seg_way_id = 8, start_node = 1002, end_node = 1001, seg_name = '''',
      highway_type = ''secondary_link'',
      length_miles = haversine_miles 34.606 (-86.983) 34.730 (-86.586),
      speed_mph = 30,
      travel_time_s = haversine_miles 34.606 (-86.983) 34.730 (-86.586) / 30 * 3600,
      seg_oneway = False\<rparr>"

section \<open>Nearest-city assignment\<close>

text \<open>
  Modelled from the spec: the tables \<^verbatim>\<open>cities\<close>, \<^verbatim>\<open>tourist_attractions\<close> and
  \<^verbatim>\<open>tourist_attractions_count\<close> are declared outside the sources; their rows carry the
  columns that the two SQL statements of \<^verbatim>\<open>assign_tourist_attractions_to_cities\<close> read
  and write, \<^verbatim>\<open>cities.id\<close> and \<^verbatim>\<open>tourist_attractions_count.city_id\<close> being keys and no
  column being null but \<^verbatim>\<open>nearest_city_id\<close>.
\<close>

record city =
  city_id :: int
  city_lat :: real
  city_lon :: real
  population :: int

record attraction =
  ta_id :: int
  ta_lat :: real
  ta_lon :: real
  nearest_city_id :: "int option"

record database =
  cities :: "city list"
  attractions :: "attraction list"
  tourist_attractions_count :: "int \<rightharpoonup> int \<times> real"

text \<open>The sort key \<^verbatim>\<open>(ta.lat - c.lat)^2 + (ta.lon - c.lon)^2\<close>.\<close>

definition squared_delta :: "attraction \<Rightarrow> city \<Rightarrow> real" where
  "squared_delta ta c = (ta_lat ta - city_lat c)\<^sup>2 + (ta_lon ta - city_lon c)\<^sup>2"

text \<open>
  \<^verbatim>\<open>SELECT c.id FROM cities c ORDER BY ... LIMIT 1\<close>: the first row of the sorted table,
  null when the table is empty. The sort is stable, so among equal keys the first row of
  the table is taken.
\<close>

definition select_nearest :: "city list \<Rightarrow> attraction \<Rightarrow> int option" where
  "select_nearest cs ta =
     (case sort_key (squared_delta ta) cs of [] \<Rightarrow> None | c # _ \<Rightarrow> Some (city_id c))"

text \<open>\<^verbatim>\<open>UPDATE tourist_attractions ta SET nearest_city_id = (SELECT ...)\<close>.\<close>

definition update_nearest_city :: "database \<Rightarrow> database" where
  "update_nearest_city db =
     db\<lparr>attractions :=
          map (\<lambda>ta. ta\<lparr>nearest_city_id := select_nearest (cities db) ta\<rparr>) (attractions db)\<rparr>"

text \<open>
  The rows of \<^verbatim>\<open>SELECT c.id, COUNT(t.id), COUNT(t.id)::float / c.population * 10000
  FROM cities c LEFT JOIN tourist_attractions t ON t.nearest_city_id = c.id GROUP BY c.id\<close>;
  the division raises an error when a population is zero.
\<close>

definition attraction_count :: "attraction list \<Rightarrow> city \<Rightarrow> int" where
  "attraction_count tas c = int (length (filter (\<lambda>t. nearest_city_id t = Some (city_id c)) tas))"

fun summary_rows :: "attraction list \<Rightarrow> city list \<Rightarrow> py_error + (int \<times> int \<times> real) list" where
  "summary_rows tas [] = Inr []"
| "summary_rows tas (c # cs) =
     (if population c = 0 then Inl DatabaseError
      else
        (case summary_rows tas cs of
           Inl e \<Rightarrow> Inl e
         | Inr rows \<Rightarrow>
             Inr ((city_id c, attraction_count tas c,
                   of_int (attraction_count tas c) / of_int (population c) * 10000) # rows)))"

text \<open>
  \<^verbatim>\<open>INSERT ... ON CONFLICT (city_id) DO UPDATE SET count = EXCLUDED.count,
  per_capita = EXCLUDED.per_capita\<close>: each row replaces the row of its city.
\<close>

fun upsert_rows :: "(int \<times> int \<times> real) list \<Rightarrow> (int \<rightharpoonup> int \<times> real) \<Rightarrow> (int \<rightharpoonup> int \<times> real)" where
  "upsert_rows [] table = table"
| "upsert_rows ((cid, cnt, per_capita) # rows) table =
     upsert_rows rows (table(cid \<mapsto> (cnt, per_capita)))"

text \<open>
  \<^verbatim>\<open>assign_tourist_attractions_to_cities(conn)\<close>: the two statements, then the commit.
  When the second statement fails the transaction is rolled back and the error raised
  again: the result is the error, and the database is as it was.
\<close>

definition assign_tourist_attractions_to_cities :: "database \<Rightarrow> py_error + database" where
  "assign_tourist_attractions_to_cities db =
     (let db1 = update_nearest_city db
      in case summary_rows (attractions db1) (cities db1) of
           Inl e \<Rightarrow> Inl e
         | Inr rows \<Rightarrow>
             Inr (db1\<lparr>tourist_attractions_count := upsert_rows rows (tourist_attractions_count db1)\<rparr>))"

text \<open>The database after one call, committed or rolled back.\<close>

definition database_after :: "database \<Rightarrow> database" where
  "database_after db =
     (case assign_tourist_attractions_to_cities db of Inl e \<Rightarrow> db | Inr db' \<Rightarrow> db')"

text \<open>
  The example of the specification: two cities, and a point of interest at (34.0, -86.9).
\<close>

definition example_cities :: "city list" where
  "example_cities =
     [\<lparr>city_id = 1, city_lat = 34.73, city_lon = -86.586, population = 215000\<rparr>,
      \<lparr>city_id = 2, city_lat = 33.52, city_lon = -86.802, population = 210000\<rparr>]"

definition example_poi :: attraction where
  "example_poi = \<lparr>ta_id = 100, ta_lat = 34.0, ta_lon = -86.9, nearest_city_id = None\<rparr>"

definition example_database :: database where
  "example_database =
     \<lparr>cities = example_cities, attractions = [example_poi],
      tourist_attractions_count = Map.empty\<rparr>"

section \<open>Properties of escape\_tsv\<close>

lemma str_replace_single:
  "str_replace [a] new s = concat (map (\<lambda>c. if c = a then new else [c]) s)"
  by (induction s) simp_all

lemma escape_tsv_Some:
  "escape_tsv (Some s) =
     concat (map (\<lambda>c. if c = backslash then [backslash, backslash]
                        else if c = tab \<or> c = newline then [space] else [c]) s)"
  by (induction s)
     (simp_all add: escape_tsv_def str_replace_single backslash_def tab_def newline_def space_def)

lemma escape_tsv_unchanged:
  "backslash \<notin> set s \<Longrightarrow> tab \<notin> set s \<Longrightarrow> newline \<notin> set s \<Longrightarrow> escape_tsv (Some s) = s"
  by (induction s) (auto simp: escape_tsv_Some)

lemma escape_tsv_no_separator:
  "tab \<notin> set (escape_tsv (Some s)) \<and> newline \<notin> set (escape_tsv (Some s))"
  by (induction s)
     (auto simp: escape_tsv_Some backslash_def tab_def newline_def space_def)

lemma escape_tsv_backslashes_even:
  "even (length (filter (\<lambda>c. c = backslash) (escape_tsv (Some s))))"
  by (induction s)
     (auto simp: escape_tsv_Some backslash_def tab_def newline_def space_def)

lemma escape_tsv_not_sentinel: "escape_tsv (Some s) \<noteq> null_sentinel"
proof
  assume "escape_tsv (Some s) = null_sentinel"
  then have "length (filter (\<lambda>c. c = backslash) (escape_tsv (Some s))) = 1"
    by (simp add: null_sentinel_def backslash_def)
  with escape_tsv_backslashes_even [of s] show False
    by simp
qed

text \<open>
  C6: \<^verbatim>\<open>escape_tsv\<close> maps None to the null sentinel, a backslash followed by \<open>N\<close>. For
  every other value it doubles each backslash, then replaces each tab and each newline
  by one space. The escaped form of a value that is not None never equals the sentinel,
  it contains neither a tab (the field separator) nor a newline (the record separator),
  and a string without backslash, tab and newline is returned unchanged.
\<close>

theorem escape_tsv_spec:
  "escape_tsv None = [CHR 0x5C, CHR ''N'']
   \<and> escape_tsv (Some s) =
       str_replace [newline] [space]
         (str_replace [tab] [space] (str_replace [backslash] [backslash, backslash] s))
   \<and> escape_tsv (Some s) =
       concat (map (\<lambda>c. if c = backslash then [backslash, backslash]
                          else if c = tab \<or> c = newline then [space] else [c]) s)
   \<and> escape_tsv (Some s) \<noteq> escape_tsv None
   \<and> tab \<notin> set (escape_tsv (Some s))
   \<and> newline \<notin> set (escape_tsv (Some s))
   \<and> (backslash \<notin> set s \<and> tab \<notin> set s \<and> newline \<notin> set s \<longrightarrow> escape_tsv (Some s) = s)"
proof -
  have none: "escape_tsv None = [CHR 0x5C, CHR ''N'']"
    by (simp add: escape_tsv_def null_sentinel_def backslash_def)
  have steps: "escape_tsv (Some s) =
       str_replace [newline] [space]
         (str_replace [tab] [space] (str_replace [backslash] [backslash, backslash] s))"
    by (simp add: escape_tsv_def)
  have differs: "escape_tsv (Some s) \<noteq> escape_tsv None"
    using escape_tsv_not_sentinel [of s] by (simp add: escape_tsv_def)
  from none steps differs escape_tsv_Some [of s] escape_tsv_no_separator [of s]
    escape_tsv_unchanged [of s]
  show ?thesis
    by blast
qed

theorem escape_tsv_spec_witness:
  "backslash \<notin> set ''Tom's Diner'' \<and> tab \<notin> set ''Tom's Diner'' \<and> newline \<notin> set ''Tom's Diner''
   \<and> escape_tsv (Some ''Tom's Diner'') = ''Tom's Diner''"
proof -
  have h: "backslash \<notin> set ''Tom's Diner'' \<and> tab \<notin> set ''Tom's Diner''
           \<and> newline \<notin> set ''Tom's Diner''"
    by (simp add: backslash_def tab_def newline_def)
  have "escape_tsv (Some ''Tom's Diner'') = ''Tom's Diner''"
    by (rule mp [OF conjunct2 [OF conjunct2 [OF conjunct2 [OF conjunct2 [OF conjunct2
          [OF conjunct2 [OF escape_tsv_spec]]]]]] h])
  with h show ?thesis
    by simp
qed

section \<open>Properties of copy\_to\_table\<close>

text \<open>
  C10: \<^verbatim>\<open>copy_to_table\<close> returns the number of records of its input. Called with no
  record it returns 0 and leaves the cursor as it was, whatever COPY would have done;
  called with records it runs one COPY of the buffer and, when the COPY succeeds,
  returns their number; an error of the COPY is raised to the caller.
\<close>

theorem copy_to_table_count:
  "(data = [] \<longrightarrow> copy_to_table copy_from cur table columns data = Inr (0, cur))
   \<and> (\<forall>n cur'. copy_to_table copy_from cur table columns data = Inr (n, cur')
         \<longrightarrow> n = int (length data))
   \<and> (data \<noteq> [] \<longrightarrow>
        (\<forall>cur'. copy_from cur (tsv_buffer data) table columns null_sentinel = Inr cur'
           \<longrightarrow> copy_to_table copy_from cur table columns data = Inr (int (length data), cur')))
   \<and> (data \<noteq> [] \<longrightarrow>
        (\<forall>e. copy_from cur (tsv_buffer data) table columns null_sentinel = Inl e
           \<longrightarrow> copy_to_table copy_from cur table columns data = Inl e))"
  by (auto simp: copy_to_table_def split: sum.splits)

theorem copy_to_table_count_witness:
  "copy_to_table failing_copy_from [(''t'', ''x'')] ''osm_nodes'' [''osm_id''] [] =
     Inr (0, [(''t'', ''x'')])
   \<and> copy_to_table logging_copy_from [] ''osm_nodes'' [''osm_id'', ''tags'']
        [[Some ''17'', None], [Some ''18'', Some ''{}'']] =
     Inr (2, [(''osm_nodes'', tsv_buffer [[Some ''17'', None], [Some ''18'', Some ''{}'']])])
   \<and> copy_to_table failing_copy_from [] ''osm_nodes'' [''osm_id''] [[Some ''17'']] =
     Inl DatabaseError"
proof -
  have empty: "copy_to_table failing_copy_from [(''t'', ''x'')] ''osm_nodes'' [''osm_id''] [] =
     Inr (0, [(''t'', ''x'')])"
    by (rule mp [OF conjunct1 [OF copy_to_table_count]]) (rule refl)
  have "copy_to_table logging_copy_from [] ''osm_nodes'' [''osm_id'', ''tags'']
        [[Some ''17'', None], [Some ''18'', Some ''{}'']] =
     Inr (int (length [[Some ''17'', None], [Some ''18'', Some ''{}'']]),
          [(''osm_nodes'', tsv_buffer [[Some ''17'', None], [Some ''18'', Some ''{}'']])])"
    by (rule mp [OF spec [OF mp [OF conjunct1 [OF conjunct2 [OF conjunct2
          [OF copy_to_table_count]]]]]])
       (simp_all add: logging_copy_from_def)
  then have two: "copy_to_table logging_copy_from [] ''osm_nodes'' [''osm_id'', ''tags'']
        [[Some ''17'', None], [Some ''18'', Some ''{}'']] =
     Inr (2, [(''osm_nodes'', tsv_buffer [[Some ''17'', None], [Some ''18'', Some ''{}'']])])"
    by simp
  have failed: "copy_to_table failing_copy_from [] ''osm_nodes'' [''osm_id''] [[Some ''17'']] =
     Inl DatabaseError"
    by (rule mp [OF spec [OF mp [OF conjunct2 [OF conjunct2 [OF conjunct2
          [OF copy_to_table_count]]]]]])
       (simp_all add: failing_copy_from_def)
  from empty two failed show ?thesis
    by (intro conjI)
qed

section \<open>Properties of the handler and of reclamation\<close>

lemma node_road_node_ids: "road_node_ids (node h n) = road_node_ids h"
  by (simp add: node_def Let_def split: option.splits)

lemma node_ways: "ways (node h n) = ways h"
  by (simp add: node_def Let_def split: option.splits)

lemma node_node_coords:
  "node_coords (node h n) = (node_coords h)(node_id n \<mapsto> (node_lat n, node_lon n))"
  by (simp add: node_def Let_def split: option.splits)

lemma way_node_coords: "node_coords (way h w) = node_coords h"
  by (simp add: way_def Let_def split: option.splits)

lemma way_needed:
  "road_node_ids h = referenced_ids (ways h) \<Longrightarrow>
   road_node_ids (way h w) = referenced_ids (ways (way h w))"
  by (auto simp: way_def Let_def referenced_ids_def entry_node_ids_def split: option.splits)

lemma apply_file_needed:
  "road_node_ids h = referenced_ids (ways h) \<Longrightarrow>
   road_node_ids (apply_file h es) = referenced_ids (ways (apply_file h es))"
proof (induction h es rule: apply_file.induct)
  case (1 self)
  then show ?case by simp
next
  case (2 self n es)
  then show ?case by (simp add: node_road_node_ids node_ways)
next
  case (3 self w es)
  then show ?case by (simp add: way_needed)
qed

lemma needed_after_pass:
  "road_node_ids (apply_file OSMHandler_init es) =
     referenced_ids (ways (apply_file OSMHandler_init es))"
proof -
  have "road_node_ids OSMHandler_init = referenced_ids (ways OSMHandler_init)"
    by (simp add: OSMHandler_init_def referenced_ids_def)
  then show ?thesis
    by (rule apply_file_needed)
qed

lemma apply_file_dom:
  "dom (node_coords (apply_file h es)) = dom (node_coords h) \<union> file_node_ids es"
  by (induction h es rule: apply_file.induct) (auto simp: node_node_coords way_node_coords)

lemma main_extract_fields:
  "ways (main_extract es) = ways (apply_file OSMHandler_init es)"
  "road_node_ids (main_extract es) = road_node_ids (apply_file OSMHandler_init es)"
  "node_coords (main_extract es) =
     node_coords (apply_file OSMHandler_init es) |` road_node_ids (apply_file OSMHandler_init es)"
  by (simp_all add: main_extract_def main_free_unused_nodes_def Let_def restrict_map_def)

lemmas handler_run = main_extract_def main_free_unused_nodes_def OSMHandler_init_def node_def
  way_def Let_def HIGHWAY_TYPES_def TOURISM_TYPES_def

lemma small_file_ways:
  "ways (apply_file OSMHandler_init small_file) = [(1, [10, 11], ''motorway'', '''', False, '''')]"
  by (simp add: small_file_def handler_run)

lemma small_file_extract_ways:
  "ways (main_extract small_file) = [(1, [10, 11], ''motorway'', '''', False, '''')]"
  by (simp add: small_file_def handler_run)

lemma small_file_coords:
  "node_coords (apply_file OSMHandler_init small_file) 10 = Some (34, - 86)"
  "node_coords (apply_file OSMHandler_init small_file) 12 = Some (33, - 87)"
  by (simp_all add: small_file_def handler_run)

lemma motorway_file_ways:
  "ways (main_extract (motorway_file m)) = [(7, [1001, 1002, 1003], ''motorway'', ''I-65'', False, m)]"
  by (simp add: motorway_file_def handler_run)

lemma motorway_file_coords:
  "node_coords (main_extract (motorway_file m)) 1001 = Some (34.730, - 86.586)"
  "node_coords (main_extract (motorway_file m)) 1002 = Some (34.606, - 86.983)"
  "node_coords (main_extract (motorway_file m)) 1003 = None"
  by (simp_all add: motorway_file_def handler_run)

lemma two_way_file_ways:
  "ways (main_extract (two_way_file m)) =
     [(7, [1001, 1002, 1003], ''motorway'', ''I-65'', False, m),
      (8, [1002, 1001], ''secondary_link'', '''', False, '''')]"
  by (simp add: two_way_file_def motorway_file_def handler_run)

lemma two_way_file_coords:
  "node_coords (main_extract (two_way_file m)) 1001 = Some (34.730, - 86.586)"
  "node_coords (main_extract (two_way_file m)) 1002 = Some (34.606, - 86.983)"
  "node_coords (main_extract (two_way_file m)) 1003 = None"
  by (simp_all add: two_way_file_def motorway_file_def handler_run)

text \<open>
  C4: reclamation replaces the coordinate map by its restriction to the needed set, and
  the needed set is exactly the union of the node lists of the retained ways: an id is
  needed if and only if some retained way mentions it. Reclamation changes neither the
  ways nor the needed set.
\<close>

theorem reclaim_exact:
  "node_coords (main_extract es) =
     node_coords (apply_file OSMHandler_init es) |` road_node_ids (apply_file OSMHandler_init es)
   \<and> road_node_ids (apply_file OSMHandler_init es) =
       (\<Union>w \<in> set (ways (apply_file OSMHandler_init es)). set (entry_node_ids w))
   \<and> road_node_ids (main_extract es) = road_node_ids (apply_file OSMHandler_init es)
   \<and> ways (main_extract es) = ways (apply_file OSMHandler_init es)"
  using needed_after_pass [of es] by (simp add: main_extract_fields referenced_ids_def)

theorem reclaim_exact_witness:
  "road_node_ids (apply_file OSMHandler_init small_file) = {10, 11}
   \<and> node_coords (main_extract small_file) 10 = Some (34, - 86)
   \<and> node_coords (main_extract small_file) 12 = None"
proof -
  note t = reclaim_exact [of small_file]
  have needed: "road_node_ids (apply_file OSMHandler_init small_file) = {10, 11}"
    unfolding conjunct1 [OF conjunct2 [OF t]] small_file_ways
    by (simp add: entry_node_ids_def)
  have "node_coords (main_extract small_file) 10 = Some (34, - 86)"
    and "node_coords (main_extract small_file) 12 = None"
    unfolding conjunct1 [OF t] needed by (simp_all add: small_file_coords)
  with needed show ?thesis
    by (intro conjI)
qed

text \<open>
  The claim C3 as stated fails: a retained way may mention a node that the file does not
  contain. In the file with one motorway and no node, the id 10 is in the node list of
  the retained way and has no coordinates after reclamation.
\<close>

theorem referenced_id_without_entry:
  "(1, [10, 11], ''motorway'', '''', False, '''') \<in> set (ways (main_extract dangling_way_file))
   \<and> 10 \<in> set (entry_node_ids (1, [10, 11], ''motorway'', '''', False, ''''))
   \<and> node_coords (main_extract dangling_way_file) 10 = None"
  by (simp add: dangling_way_file_def handler_run entry_node_ids_def)

text \<open>
  C3, amended: reclamation drops no coordinates that a retained way refers to. An id in
  the node list of a retained way has after reclamation the entry that the pass recorded
  for it, and it has an entry if and only if the file contains a node with that id.
\<close>

theorem referenced_entries_kept:
  assumes "w \<in> set (ways (main_extract es))" and "n \<in> set (entry_node_ids w)"
  shows "node_coords (main_extract es) n = node_coords (apply_file OSMHandler_init es) n
    \<and> (n \<in> dom (node_coords (main_extract es)) \<longleftrightarrow> n \<in> file_node_ids es)"
proof -
  from assms have "n \<in> referenced_ids (ways (apply_file OSMHandler_init es))"
    by (auto simp: main_extract_fields referenced_ids_def)
  then have needed: "n \<in> road_node_ids (apply_file OSMHandler_init es)"
    by (simp add: needed_after_pass)
  then have same: "node_coords (main_extract es) n = node_coords (apply_file OSMHandler_init es) n"
    by (simp add: main_extract_fields)
  have "dom (node_coords (apply_file OSMHandler_init es)) = file_node_ids es"
    using apply_file_dom [of OSMHandler_init es] by (simp add: OSMHandler_init_def)
  with same show ?thesis
    by (auto simp: dom_def)
qed

theorem referenced_entries_kept_witness:
  "(1, [10, 11], ''motorway'', '''', False, '''') \<in> set (ways (main_extract small_file))
   \<and> 10 \<in> set (entry_node_ids (1, [10, 11], ''motorway'', '''', False, ''''))
   \<and> node_coords (main_extract small_file) 10 = Some (34, - 86)
   \<and> 10 \<in> file_node_ids small_file"
proof -
  have w: "(1, [10, 11], ''motorway'', '''', False, '''') \<in> set (ways (main_extract small_file))"
    by (simp add: small_file_extract_ways)
  have n: "10 \<in> set (entry_node_ids (1, [10, 11], ''motorway'', '''', False, ''''))"
    by (simp add: entry_node_ids_def)
  note t = referenced_entries_kept [OF w n]
  have c: "node_coords (main_extract small_file) 10 = Some (34, - 86)"
    unfolding conjunct1 [OF t] by (rule small_file_coords)
  then have "10 \<in> dom (node_coords (main_extract small_file))"
    by (simp add: dom_def)
  then have "10 \<in> file_node_ids small_file"
    unfolding conjunct2 [OF t] .
  with w n c show ?thesis
    by (intro conjI)
qed

section \<open>Properties of the speed resolution\<close>

lemmas speed_run = resolve_speed_def parse_maxspeed_def py_split_def py_strip_def float_of_str_def
  int_of_float_def isspace_def float_space_def split_sign_def matches_word_def same_letter_def
  parse_decimal_def isdigit_def digits_value_def scale10_def finite_or_infinity_def
  default_speed_def DEFAULT_SPEEDS_def float_overflow_bound_def

lemma resolve_speed_55: "resolve_speed ''motorway'' ''55 mph'' = Inr 55"
  by (simp add: speed_run)

lemma resolve_speed_zero: "resolve_speed ''motorway'' ''0'' = Inr 0"
  by (simp add: speed_run)

lemma resolve_speed_negative: "resolve_speed ''motorway'' ''-5'' = Inr (- 5)"
  by (simp add: speed_run)

lemma resolve_speed_inf: "resolve_speed ''motorway'' ''inf'' = Inl OverflowError"
  by (simp add: speed_run)

lemma parse_maxspeed_inf: "parse_maxspeed ''inf'' = Inl OverflowError"
  by (simp add: speed_run)

lemma resolve_speed_none: "resolve_speed ''motorway'' ''none'' = Inr 70"
  by (simp add: speed_run)

text \<open>The default of every category is positive, also the default of an unknown one.\<close>

lemma default_speed_positive: "0 < default_speed highway"
  by (simp add: default_speed_def DEFAULT_SPEEDS_def)

lemma default_speed_recognized: "highway \<in> HIGHWAY_TYPES \<Longrightarrow> DEFAULT_SPEEDS highway \<noteq> None"
  by (auto simp: HIGHWAY_TYPES_def DEFAULT_SPEEDS_def)

text \<open>
  The fallback that the \<^verbatim>\<open>except\<close> clause gives: without a speed limit, or when the
  parse raises ValueError or IndexError, the speed is the default of the category.
\<close>

lemma resolve_speed_fallback:
  "maxspeed_str = [] \<or> parse_maxspeed maxspeed_str = Inl ValueError
     \<or> parse_maxspeed maxspeed_str = Inl IndexError \<Longrightarrow>
   resolve_speed highway maxspeed_str = Inr (default_speed highway)"
  by (auto simp: resolve_speed_def Let_def)

text \<open>A speed limit that parses is taken as it is, whatever its sign.\<close>

lemma resolve_speed_parsed:
  "maxspeed_str \<noteq> [] \<Longrightarrow> parse_maxspeed maxspeed_str = Inr v \<Longrightarrow>
   resolve_speed highway maxspeed_str = Inr v"
  by (simp add: resolve_speed_def Let_def)

text \<open>
  C2: the claim that the resolved speed of a way of a recognized category is strictly
  positive fails on the code. For a motorway, the speed limit \<^verbatim>\<open>0\<close> parses and
  resolves to the speed 0, and \<^verbatim>\<open>-5\<close> resolves to the speed -5: the parsed value
  replaces the positive default without a check of its sign.
\<close>

theorem resolved_speed_not_positive:
  "''motorway'' \<in> HIGHWAY_TYPES
   \<and> resolve_speed ''motorway'' ''0'' = Inr 0
   \<and> resolve_speed ''motorway'' ''-5'' = Inr (- 5)"
  by (simp add: HIGHWAY_TYPES_def resolve_speed_zero resolve_speed_negative)

section \<open>Properties of the geometry and of create\_road\_segments\<close>

lemma sin_half_squared: "2 * (sin (z / 2))\<^sup>2 = 1 - cos (z::real)"
proof -
  have "cos (2 * (z / 2)) = 1 - 2 * (sin (z / 2))\<^sup>2"
    by (rule cos_double_sin)
  then show ?thesis
    by simp
qed

lemma haversine_argument_bounds:
  fixes x y d :: real
  defines "a \<equiv> (sin ((y - x) / 2))\<^sup>2 + cos x * cos y * (sin (d / 2))\<^sup>2"
  shows "0 \<le> a \<and> a \<le> 1"
proof -
  define t where "t = cos d"
  define u where "u = sin x * sin y + cos x * cos y * t"
  have s1: "2 * (sin ((y - x) / 2))\<^sup>2 = 1 - cos (y - x)"
    by (rule sin_half_squared)
  have s2: "2 * (sin (d / 2))\<^sup>2 = 1 - t"
    unfolding t_def by (rule sin_half_squared)
  have "2 * a = 2 * (sin ((y - x) / 2))\<^sup>2 + cos x * cos y * (2 * (sin (d / 2))\<^sup>2)"
    unfolding a_def by (simp add: algebra_simps)
  also have "\<dots> = 1 - u"
    unfolding s1 s2 u_def by (simp add: cos_diff algebra_simps)
  finally have a_eq: "2 * a = 1 - u" .
  define P where "P = (1 + t) * cos (x - y)"
  define Q where "Q = (1 - t) * cos (x + y)"
  have u_eq: "2 * u = P - Q"
    unfolding u_def P_def Q_def by (simp add: cos_diff cos_add algebra_simps)
  have t1: "0 \<le> 1 + t"
    unfolding t_def using cos_ge_minus_one [of d] by linarith
  have t2: "0 \<le> 1 - t"
    unfolding t_def using cos_le_one [of d] by linarith
  have p1: "P \<le> 1 + t"
    using mult_left_mono [OF cos_le_one t1, of "x - y"] by (simp add: P_def)
  have p2: "- (1 + t) \<le> P"
    using mult_left_mono [OF cos_ge_minus_one t1, of "x - y"] by (simp add: P_def)
  have q1: "Q \<le> 1 - t"
    using mult_left_mono [OF cos_le_one t2, of "x + y"] by (simp add: Q_def)
  have q2: "- (1 - t) \<le> Q"
    using mult_left_mono [OF cos_ge_minus_one t2, of "x + y"] by (simp add: Q_def)
  from a_eq u_eq p1 p2 q1 q2 show ?thesis
    by linarith
qed

lemma haversine_distance_eq:
  "haversine_distance lat1 lon1 lat2 lon2 = Inr (haversine_miles lat1 lon1 lat2 lon2)"
proof -
  define a where "a = (sin ((radians lat2 - radians lat1) / 2))\<^sup>2 +
      cos (radians lat1) * cos (radians lat2) * (sin (radians (lon2 - lon1) / 2))\<^sup>2"
  have r: "radians (lat2 - lat1) = radians lat2 - radians lat1"
    unfolding radians_def by (rule left_diff_distrib)
  have "0 \<le> a \<and> a \<le> 1"
    unfolding a_def by (rule haversine_argument_bounds)
  then show ?thesis
    unfolding haversine_distance_def haversine_miles_def py_sqrt_def Let_def r a_def [symmetric]
    by simp
qed

lemma haversine_distance_total: "\<exists>d. haversine_distance lat1 lon1 lat2 lon2 = Inr d"
  unfolding haversine_distance_eq by (rule exI) (rule refl)

lemma segments_loop_total:
  "speed \<noteq> 0 \<Longrightarrow> \<exists>segs. segments_loop coords w speed is = Inr segs"
proof (induction "is")
  case Nil
  then show ?case by simp
next
  case (Cons i "is")
  then obtain segs where segs: "segments_loop coords w speed is = Inr segs"
    by blast
  obtain wid node_ids highway name oneway maxspeed_str
    where w: "w = (wid, node_ids, highway, name, oneway, maxspeed_str)"
    by (cases w)
  show ?case
  proof (cases "coords (node_ids ! i)")
    case None
    with segs w show ?thesis by simp
  next
    case (Some p)
    show ?thesis
    proof (cases "coords (node_ids ! (i + 1))")
      case None
      with segs w Some show ?thesis by (simp split: prod.splits)
    next
      case (Some q)
      obtain lat1 lon1 where p: "p = (lat1, lon1)" by (cases p)
      obtain lat2 lon2 where q: "q = (lat2, lon2)" by (cases q)
      obtain d where d: "haversine_distance lat1 lon1 lat2 lon2 = Inr d"
        using haversine_distance_total by blast
      from Cons.prems segs w \<open>coords (node_ids ! i) = Some p\<close> Some p q d show ?thesis
        by (simp add: py_truediv_def)
    qed
  qed
qed

lemma segments_loop_pairs:
  "segments_loop coords w speed is = Inr segs \<Longrightarrow>
   map (\<lambda>s. (start_node s, end_node s)) segs =
     filter (\<lambda>(a, b). a \<in> dom coords \<and> b \<in> dom coords)
       (map (\<lambda>i. (entry_node_ids w ! i, entry_node_ids w ! (i + 1))) is)"
proof (induction "is" arbitrary: segs)
  case Nil
  then show ?case by simp
next
  case (Cons i "is")
  obtain wid node_ids highway name oneway maxspeed_str
    where w: "w = (wid, node_ids, highway, name, oneway, maxspeed_str)"
    by (cases w)
  from Cons.prems Cons.IH show ?case
    by (auto simp: w entry_node_ids_def Let_def split: option.splits sum.splits prod.splits)
qed

lemma segments_loop_fields:
  "segments_loop coords w speed is = Inr segs \<Longrightarrow> seg \<in> set segs \<Longrightarrow>
   speed \<noteq> 0 \<and> speed_mph seg = speed
   \<and> travel_time_s seg = length_miles seg / of_int speed * 3600
   \<and> (\<exists>lat1 lon1 lat2 lon2.
         coords (start_node seg) = Some (lat1, lon1) \<and> coords (end_node seg) = Some (lat2, lon2)
         \<and> haversine_distance lat1 lon1 lat2 lon2 = Inr (length_miles seg))"
proof (induction "is" arbitrary: segs)
  case Nil
  then show ?case by simp
next
  case (Cons i "is")
  obtain wid node_ids highway name oneway maxspeed_str
    where w: "w = (wid, node_ids, highway, name, oneway, maxspeed_str)"
    by (cases w)
  from Cons.prems Cons.IH show ?case
    by (auto simp: w Let_def py_truediv_def split: option.splits sum.splits prod.splits if_splits)
qed

lemma consecutive_pairs_index:
  "map (\<lambda>i. (xs ! i, xs ! (i + 1))) [0..<length xs - 1] = consecutive_pairs xs"
  by (rule nth_equalityI) (auto simp: consecutive_pairs_def nth_tl)


text \<open>
  Where a segment of the loop comes from: it carries the id and the category of the way
  of the loop, and its two ends are the nodes at one index of the loop and at the next.
\<close>

lemma segments_loop_origin:
  "segments_loop coords w speed is = Inr segs \<Longrightarrow> seg \<in> set segs \<Longrightarrow>
   seg_way_id seg = entry_way_id w \<and> highway_type seg = entry_highway w
   \<and> (\<exists>i \<in> set is. start_node seg = entry_node_ids w ! i
                     \<and> end_node seg = entry_node_ids w ! (i + 1))"
proof (induction "is" arbitrary: segs)
  case Nil
  then show ?case by simp
next
  case (Cons i "is")
  obtain wid node_ids highway name oneway maxspeed_str
    where w: "w = (wid, node_ids, highway, name, oneway, maxspeed_str)"
    by (cases w)
  from Cons.prems Cons.IH show ?case
    by (auto simp: w Let_def entry_way_id_def entry_highway_def entry_node_ids_def
        split: option.splits sum.splits prod.splits)
qed

lemma index_pair_consecutive:
  assumes "i \<in> set [0..<length xs - 1]"
  shows "(xs ! i, xs ! (i + 1)) \<in> set (consecutive_pairs xs)"
proof -
  from assms have "(xs ! i, xs ! (i + 1)) \<in> set (map (\<lambda>i. (xs ! i, xs ! (i + 1))) [0..<length xs - 1])"
    by (rule imageI [of i "set [0..<length xs - 1]" "\<lambda>i. (xs ! i, xs ! (i + 1))", unfolded set_map [symmetric]])
  then show ?thesis
    unfolding consecutive_pairs_index .
qed

lemma way_segments_Inr:
  "way_segments coords w = Inr segs \<Longrightarrow>
   \<exists>speed. resolve_speed (entry_highway w) (entry_maxspeed w) = Inr speed
     \<and> segments_loop coords w speed [0..<length (entry_node_ids w) - 1] = Inr segs"
  by (cases w)
     (auto simp: way_segments_def entry_highway_def entry_maxspeed_def entry_node_ids_def
        split: sum.splits)

lemma ways_loop_member:
  "ways_loop coords ws = Inr segs \<Longrightarrow> seg \<in> set segs \<Longrightarrow>
   \<exists>w \<in> set ws. \<exists>segs'. way_segments coords w = Inr segs' \<and> seg \<in> set segs'"
proof (induction ws arbitrary: segs)
  case Nil
  then show ?case by simp
next
  case (Cons w ws)
  then show ?case
    by (fastforce split: sum.splits)
qed

text \<open>
  What the loop does for one way whose speed resolves to a number other than zero: it
  raises nothing, and its segments are, in order, the consecutive pairs of the node list
  whose two ids have coordinates.
\<close>

lemma way_segments_pairs:
  assumes "resolve_speed (entry_highway w) (entry_maxspeed w) = Inr speed" and "speed \<noteq> 0"
  shows "\<exists>segs. way_segments coords w = Inr segs
    \<and> map (\<lambda>s. (start_node s, end_node s)) segs =
        filter (\<lambda>(a, b). a \<in> dom coords \<and> b \<in> dom coords) (consecutive_pairs (entry_node_ids w))"
proof -
  from segments_loop_total [OF assms(2)] obtain segs
    where loop: "segments_loop coords w speed [0..<length (entry_node_ids w) - 1] = Inr segs"
    by blast
  from assms(1) loop have "way_segments coords w = Inr segs"
    by (cases w)
       (simp add: way_segments_def entry_highway_def entry_maxspeed_def entry_node_ids_def)
  moreover have "map (\<lambda>s. (start_node s, end_node s)) segs =
      filter (\<lambda>(a, b). a \<in> dom coords \<and> b \<in> dom coords) (consecutive_pairs (entry_node_ids w))"
    using segments_loop_pairs [OF loop] unfolding consecutive_pairs_index .
  ultimately show ?thesis
    by blast
qed

text \<open>
  With every node of the way in the coordinate map, that is one segment less than the
  way has nodes; and a way with fewer than two nodes gives no segment, whatever its
  speed.
\<close>

lemma way_segments_all_present:
  assumes "resolve_speed (entry_highway w) (entry_maxspeed w) = Inr speed" and "speed \<noteq> 0"
    and "set (entry_node_ids w) \<subseteq> dom coords"
  shows "\<exists>segs. way_segments coords w = Inr segs \<and> length segs = length (entry_node_ids w) - 1"
proof -
  from way_segments_pairs [OF assms(1,2)] obtain segs
    where segs: "way_segments coords w = Inr segs"
      and pairs: "map (\<lambda>s. (start_node s, end_node s)) segs =
        filter (\<lambda>(a, b). a \<in> dom coords \<and> b \<in> dom coords) (consecutive_pairs (entry_node_ids w))"
    by blast
  have present: "a \<in> dom coords \<and> b \<in> dom coords"
    if "(a, b) \<in> set (zip (entry_node_ids w) (tl (entry_node_ids w)))" for a b
  proof -
    from that have "a \<in> set (entry_node_ids w)"
      by (rule set_zip_leftD)
    moreover from that have "b \<in> set (tl (entry_node_ids w))"
      by (rule set_zip_rightD)
    then have "b \<in> set (entry_node_ids w)"
      by (cases "entry_node_ids w") simp_all
    ultimately show ?thesis
      using assms(3) by blast
  qed
  have "\<forall>p \<in> set (consecutive_pairs (entry_node_ids w)). (\<lambda>(a, b). a \<in> dom coords \<and> b \<in> dom coords) p"
    unfolding consecutive_pairs_def using present by blast
  then have "filter (\<lambda>(a, b). a \<in> dom coords \<and> b \<in> dom coords) (consecutive_pairs (entry_node_ids w))
      = consecutive_pairs (entry_node_ids w)"
    by (simp only: filter_True)
  with pairs have "length (map (\<lambda>s. (start_node s, end_node s)) segs) =
      length (consecutive_pairs (entry_node_ids w))"
    by simp
  then have "length segs = length (entry_node_ids w) - 1"
    by (simp add: consecutive_pairs_def)
  with segs show ?thesis
    by blast
qed

lemma way_segments_short:
  assumes "resolve_speed (entry_highway w) (entry_maxspeed w) = Inr speed"
    and "length (entry_node_ids w) < 2"
  shows "way_segments coords w = Inr []"
proof -
  from assms(2) have "[0..<length (entry_node_ids w) - 1] = []"
    by simp
  with assms(1) show ?thesis
    by (cases w)
       (simp add: way_segments_def entry_highway_def entry_maxspeed_def entry_node_ids_def)
qed

lemmas segment_run = create_road_segments_def motorway_file_ways motorway_file_coords
  way_segments_def haversine_distance_eq py_truediv_def upt_rec

lemma motorway_55:
  "create_road_segments (main_extract (motorway_file ''55 mph'')) = Inr [motorway_segment]"
  by (simp add: segment_run resolve_speed_55 motorway_segment_def
      escape_tsv_def backslash_def tab_def newline_def space_def)

lemma motorway_zero:
  "create_road_segments (main_extract (motorway_file ''0'')) = Inl ZeroDivisionError"
  by (simp add: segment_run resolve_speed_zero)

lemma motorway_inf:
  "create_road_segments (main_extract (motorway_file ''inf'')) = Inl OverflowError"
  by (simp add: segment_run resolve_speed_inf)

lemma resolve_speed_link: "resolve_speed ''secondary_link'' '''' = Inr 30"
  by (simp add: resolve_speed_def default_speed_def DEFAULT_SPEEDS_def)

lemma two_way_55:
  "create_road_segments (main_extract (two_way_file ''55 mph'')) =
     Inr [motorway_segment, link_segment]"
  by (simp add: create_road_segments_def two_way_file_ways two_way_file_coords
      way_segments_def haversine_distance_eq py_truediv_def upt_rec
      resolve_speed_55 resolve_speed_link motorway_segment_def link_segment_def
      escape_tsv_def backslash_def tab_def newline_def space_def)

text \<open>
  C1: for every segment that \<^verbatim>\<open>create_road_segments\<close> emits, the travel time is the
  length divided by the speed, times 3600, and the speed is not zero. The segment
  belongs to a way of the handler: it carries the id and the category of that way, its
  ends are two consecutive nodes of that way, and its speed is the resolved speed of
  that very way. The length is the haversine distance between the coordinates of the
  two end nodes of the segment.
\<close>

theorem travel_time_formula:
  assumes "create_road_segments h = Inr segs" and "seg \<in> set segs"
  shows "speed_mph seg \<noteq> 0
    \<and> travel_time_s seg = length_miles seg / of_int (speed_mph seg) * 3600
    \<and> (\<exists>w \<in> set (ways h).
          (\<exists>segs'. way_segments (node_coords h) w = Inr segs' \<and> seg \<in> set segs')
          \<and> seg_way_id seg = entry_way_id w
          \<and> highway_type seg = entry_highway w
          \<and> (start_node seg, end_node seg) \<in> set (consecutive_pairs (entry_node_ids w))
          \<and> resolve_speed (entry_highway w) (entry_maxspeed w) = Inr (speed_mph seg))
    \<and> (\<exists>lat1 lon1 lat2 lon2.
          node_coords h (start_node seg) = Some (lat1, lon1)
          \<and> node_coords h (end_node seg) = Some (lat2, lon2)
          \<and> haversine_distance lat1 lon1 lat2 lon2 = Inr (length_miles seg))"
proof -
  from assms obtain w segs' where w: "w \<in> set (ways h)"
    and segs': "way_segments (node_coords h) w = Inr segs'" and mem: "seg \<in> set segs'"
    unfolding create_road_segments_def by (blast dest: ways_loop_member)
  from segs' obtain speed
    where speed: "resolve_speed (entry_highway w) (entry_maxspeed w) = Inr speed"
      and loop: "segments_loop (node_coords h) w speed [0..<length (entry_node_ids w) - 1] = Inr segs'"
    by (blast dest: way_segments_Inr)
  note fields = segments_loop_fields [OF loop mem]
  note origin = segments_loop_origin [OF loop mem]
  from origin obtain i where i: "i \<in> set [0..<length (entry_node_ids w) - 1]"
    and ends: "start_node seg = entry_node_ids w ! i" "end_node seg = entry_node_ids w ! (i + 1)"
    by blast
  have pair: "(start_node seg, end_node seg) \<in> set (consecutive_pairs (entry_node_ids w))"
    unfolding ends using i by (rule index_pair_consecutive)
  have own: "\<exists>w \<in> set (ways h).
      (\<exists>segs'. way_segments (node_coords h) w = Inr segs' \<and> seg \<in> set segs')
      \<and> seg_way_id seg = entry_way_id w
      \<and> highway_type seg = entry_highway w
      \<and> (start_node seg, end_node seg) \<in> set (consecutive_pairs (entry_node_ids w))
      \<and> resolve_speed (entry_highway w) (entry_maxspeed w) = Inr (speed_mph seg)"
    using w segs' mem origin pair speed fields by blast
  from fields own show ?thesis
    by blast
qed

theorem travel_time_formula_witness:
  "create_road_segments (main_extract (two_way_file ''55 mph'')) = Inr [motorway_segment, link_segment]
   \<and> link_segment \<in> set [motorway_segment, link_segment]
   \<and> speed_mph link_segment \<noteq> 0
   \<and> travel_time_s link_segment =
       length_miles link_segment / of_int (speed_mph link_segment) * 3600
   \<and> (\<exists>w \<in> set (ways (main_extract (two_way_file ''55 mph''))).
          (\<exists>segs'. way_segments (node_coords (main_extract (two_way_file ''55 mph''))) w = Inr segs'
                    \<and> link_segment \<in> set segs')
          \<and> seg_way_id link_segment = entry_way_id w
          \<and> highway_type link_segment = entry_highway w
          \<and> (start_node link_segment, end_node link_segment)
               \<in> set (consecutive_pairs (entry_node_ids w))
          \<and> resolve_speed (entry_highway w) (entry_maxspeed w) = Inr (speed_mph link_segment))
   \<and> speed_mph motorway_segment = 55 \<and> speed_mph link_segment = 30"
proof -
  have mem: "link_segment \<in> set [motorway_segment, link_segment]"
    by simp
  note t = travel_time_formula [OF two_way_55 mem]
  have fast: "speed_mph motorway_segment = 55"
    by (simp add: motorway_segment_def)
  have slow: "speed_mph link_segment = 30"
    by (simp add: link_segment_def)
  from two_way_55 mem conjunct1 [OF t] conjunct1 [OF conjunct2 [OF t]]
    conjunct1 [OF conjunct2 [OF conjunct2 [OF t]]] fast slow
  show ?thesis
    by (intro conjI)
qed

text \<open>
  C5: the claim that every way gives one segment for each consecutive pair of nodes with
  coordinates fails on the code. The motorway of the file has the nodes 1001, 1002 and
  1003, the first two with coordinates, and the speed limit \<^verbatim>\<open>0\<close>: its one pair with
  coordinates gives no segment, the division by the speed raises ZeroDivisionError and
  the function emits nothing.
\<close>

theorem zero_speed_no_segments:
  "ways (main_extract (motorway_file ''0'')) =
     [(7, [1001, 1002, 1003], ''motorway'', ''I-65'', False, ''0'')]
   \<and> node_coords (main_extract (motorway_file ''0'')) 1001 = Some (34.730, - 86.586)
   \<and> node_coords (main_extract (motorway_file ''0'')) 1002 = Some (34.606, - 86.983)
   \<and> create_road_segments (main_extract (motorway_file ''0'')) = Inl ZeroDivisionError"
  by (simp add: motorway_file_ways motorway_file_coords motorway_zero)

text \<open>
  C7: the claim that a speed limit which cannot be parsed to a number falls back to the
  default, with no exception leaving the parse, fails on the code. The speed limit
  \<^verbatim>\<open>inf\<close> is read by \<^verbatim>\<open>float\<close> as an infinity, \<^verbatim>\<open>int\<close> raises OverflowError on it,
  and the \<^verbatim>\<open>except\<close> clause catches ValueError and IndexError only: the error
  leaves \<^verbatim>\<open>create_road_segments\<close>, where the claim gives the motorway its default 70.
\<close>

theorem unparseable_speed_escapes:
  "parse_maxspeed ''inf'' = Inl OverflowError
   \<and> resolve_speed ''motorway'' ''inf'' = Inl OverflowError
   \<and> default_speed ''motorway'' = 70
   \<and> create_road_segments (main_extract (motorway_file ''inf'')) = Inl OverflowError"
  by (simp add: parse_maxspeed_inf resolve_speed_inf default_speed_def DEFAULT_SPEEDS_def
      motorway_inf)

section \<open>Properties of the nearest-city assignment\<close>

lemma select_nearest_None: "select_nearest cs ta = None \<longleftrightarrow> cs = []"
proof -
  have "sort_key (squared_delta ta) cs = [] \<longleftrightarrow> cs = []"
    using length_sort [of "squared_delta ta" cs] by (metis length_0_conv)
  then show ?thesis
    by (cases "sort_key (squared_delta ta) cs") (simp_all add: select_nearest_def)
qed

lemma select_nearest_minimal:
  assumes "select_nearest cs ta = Some cid"
  shows "\<exists>c \<in> set cs. city_id c = cid \<and> (\<forall>c' \<in> set cs. squared_delta ta c \<le> squared_delta ta c')"
proof -
  from assms obtain c rest where sorted_eq: "sort_key (squared_delta ta) cs = c # rest"
    and cid: "city_id c = cid"
    by (auto simp: select_nearest_def split: list.splits)
  have "sorted (map (squared_delta ta) (sort_key (squared_delta ta) cs))"
    by (rule sorted_sort_key)
  then have least: "\<forall>c' \<in> set (c # rest). squared_delta ta c \<le> squared_delta ta c'"
    unfolding sorted_eq by auto
  have same: "set (c # rest) = set cs"
    unfolding sorted_eq [symmetric] by (rule set_sort)
  have "c \<in> set (c # rest)"
    by simp
  then have "c \<in> set cs"
    unfolding same .
  moreover from least have "\<forall>c' \<in> set cs. squared_delta ta c \<le> squared_delta ta c'"
    unfolding same .
  ultimately show ?thesis
    using cid by blast
qed

lemma squared_delta_update:
  "squared_delta (ta\<lparr>nearest_city_id := v\<rparr>) c = squared_delta ta c"
  by (simp add: squared_delta_def)

lemma select_nearest_update:
  "select_nearest cs (ta\<lparr>nearest_city_id := v\<rparr>) = select_nearest cs ta"
proof -
  have "squared_delta (ta\<lparr>nearest_city_id := v\<rparr>) = squared_delta ta"
    by (rule ext) (rule squared_delta_update)
  then show ?thesis
    by (simp add: select_nearest_def)
qed

lemma example_select: "select_nearest example_cities example_poi = Some 2"
  by (simp add: select_nearest_def example_cities_def example_poi_def squared_delta_def
      power2_eq_square)

lemma example_update:
  "attractions (update_nearest_city example_database) = [example_poi\<lparr>nearest_city_id := Some 2\<rparr>]"
  by (simp add: update_nearest_city_def example_database_def example_select)

lemma example_run:
  "assign_tourist_attractions_to_cities example_database =
     Inr \<lparr>cities = example_cities,
          attractions = [example_poi\<lparr>nearest_city_id := Some 2\<rparr>],
          tourist_attractions_count = [1 \<mapsto> (0, 0), 2 \<mapsto> (1, 1 / 21)]\<rparr>"
  by (simp add: assign_tourist_attractions_to_cities_def update_nearest_city_def
      example_database_def example_select Let_def attraction_count_def)
     (simp add: example_cities_def example_poi_def attraction_count_def)

text \<open>
  When the aggregator commits, the assignments it leaves are those of its UPDATE
  statement; and it commits exactly when no city has the population zero.
\<close>

lemma assign_attractions:
  "assign_tourist_attractions_to_cities db = Inr db' \<Longrightarrow>
   attractions db' = attractions (update_nearest_city db) \<and> cities db' = cities db"
  by (auto simp: assign_tourist_attractions_to_cities_def update_nearest_city_def Let_def
      split: sum.splits)

lemma summary_rows_commits:
  "(\<exists>rows. summary_rows tas cs = Inr rows) \<longleftrightarrow> (\<forall>c \<in> set cs. population c \<noteq> 0)"
  by (induction cs) (auto split: sum.splits)

lemma assign_commits:
  "(\<exists>db'. assign_tourist_attractions_to_cities db = Inr db') \<longleftrightarrow>
   (\<forall>c \<in> set (cities db). population c \<noteq> 0)"
proof -
  have "(\<exists>db'. assign_tourist_attractions_to_cities db = Inr db') \<longleftrightarrow>
      (\<exists>rows. summary_rows (attractions (update_nearest_city db)) (cities db) = Inr rows)"
    by (auto simp: assign_tourist_attractions_to_cities_def update_nearest_city_def Let_def
        split: sum.splits)
  then show ?thesis
    unfolding summary_rows_commits .
qed

text \<open>
  C8: the aggregator assigns to every point of interest a city that minimizes the
  squared difference of the coordinates,
  \<open>(poi.lat - loc.lat)\<^sup>2 + (poi.lon - loc.lon)\<^sup>2\<close>, over all cities. In the database that
  a run commits, every row of the points of interest is the row of the input at the same
  place, with its id and coordinates, and with the id of such a city; without any city it
  is null. For the point of interest at (34.0, -86.9) and the cities at (34.73, -86.586)
  and (33.52, -86.802) this is the second city.
\<close>

theorem nearest_city_minimizes:
  assumes "assign_tourist_attractions_to_cities db = Inr db'"
  shows "cities db' = cities db
    \<and> length (attractions db') = length (attractions db)
    \<and> (\<forall>i < length (attractions db).
          ta_id (attractions db' ! i) = ta_id (attractions db ! i)
          \<and> ta_lat (attractions db' ! i) = ta_lat (attractions db ! i)
          \<and> ta_lon (attractions db' ! i) = ta_lon (attractions db ! i)
          \<and> (cities db = [] \<longrightarrow> nearest_city_id (attractions db' ! i) = None)
          \<and> (cities db \<noteq> [] \<longrightarrow>
               (\<exists>c \<in> set (cities db).
                  nearest_city_id (attractions db' ! i) = Some (city_id c)
                  \<and> (\<forall>c' \<in> set (cities db).
                        squared_delta (attractions db ! i) c
                          \<le> squared_delta (attractions db ! i) c'))))"
proof -
  from assign_attractions [OF assms]
  have rows: "attractions db' =
      map (\<lambda>ta. ta\<lparr>nearest_city_id := select_nearest (cities db) ta\<rparr>) (attractions db)"
    and same_cities: "cities db' = cities db"
    by (simp_all add: update_nearest_city_def)
  have len: "length (attractions db') = length (attractions db)"
    unfolding rows by simp
  have row: "ta_id (attractions db' ! i) = ta_id (attractions db ! i)
      \<and> ta_lat (attractions db' ! i) = ta_lat (attractions db ! i)
      \<and> ta_lon (attractions db' ! i) = ta_lon (attractions db ! i)
      \<and> (cities db = [] \<longrightarrow> nearest_city_id (attractions db' ! i) = None)
      \<and> (cities db \<noteq> [] \<longrightarrow>
           (\<exists>c \<in> set (cities db).
              nearest_city_id (attractions db' ! i) = Some (city_id c)
              \<and> (\<forall>c' \<in> set (cities db).
                    squared_delta (attractions db ! i) c
                      \<le> squared_delta (attractions db ! i) c')))"
    if i: "i < length (attractions db)" for i
  proof -
    define ta where "ta = attractions db ! i"
    from i have at_i: "attractions db' ! i = ta\<lparr>nearest_city_id := select_nearest (cities db) ta\<rparr>"
      unfolding rows ta_def by simp
    have nearest: "nearest_city_id (attractions db' ! i) = select_nearest (cities db) ta"
      unfolding at_i by simp
    have none: "cities db = [] \<longrightarrow> nearest_city_id (attractions db' ! i) = None"
      unfolding nearest by (simp add: select_nearest_None)
    have some: "\<exists>c \<in> set (cities db).
        nearest_city_id (attractions db' ! i) = Some (city_id c)
        \<and> (\<forall>c' \<in> set (cities db). squared_delta ta c \<le> squared_delta ta c')"
      if "cities db \<noteq> []"
    proof -
      from that obtain cid where cid: "select_nearest (cities db) ta = Some cid"
        using select_nearest_None [of "cities db" ta]
        by (cases "select_nearest (cities db) ta") auto
      from select_nearest_minimal [OF cid] show ?thesis
        unfolding nearest cid by blast
    qed
    from none some show ?thesis
      unfolding at_i ta_def [symmetric] by simp
  qed
  from same_cities len row show ?thesis
    by blast
qed

theorem nearest_city_minimizes_witness:
  "assign_tourist_attractions_to_cities example_database =
     Inr \<lparr>cities = example_cities,
          attractions = [example_poi\<lparr>nearest_city_id := Some 2\<rparr>],
          tourist_attractions_count = [1 \<mapsto> (0, 0), 2 \<mapsto> (1, 1 / 21)]\<rparr>
   \<and> 0 < length (attractions example_database)
   \<and> cities example_database \<noteq> []
   \<and> (\<exists>c \<in> set (cities example_database).
         nearest_city_id
           (attractions
              \<lparr>cities = example_cities,
               attractions = [example_poi\<lparr>nearest_city_id := Some 2\<rparr>],
               tourist_attractions_count = [1 \<mapsto> (0, 0), 2 \<mapsto> (1, 1 / 21)]\<rparr> ! 0) =
           Some (city_id c)
         \<and> (\<forall>c' \<in> set (cities example_database).
               squared_delta (attractions example_database ! 0) c
                 \<le> squared_delta (attractions example_database ! 0) c'))
   \<and> nearest_city_id
        (attractions
           \<lparr>cities = example_cities,
            attractions = [example_poi\<lparr>nearest_city_id := Some 2\<rparr>],
            tourist_attractions_count = [1 \<mapsto> (0, 0), 2 \<mapsto> (1, 1 / 21)]\<rparr> ! 0) = Some 2"
proof -
  have idx: "0 < length (attractions example_database)"
    by (simp add: example_database_def)
  have some: "cities example_database \<noteq> []"
    by (simp add: example_database_def example_cities_def)
  note t = nearest_city_minimizes [OF example_run]
  note row = mp [OF spec [OF conjunct2 [OF conjunct2 [OF t]]] idx]
  note hit = mp [OF conjunct2 [OF conjunct2 [OF conjunct2 [OF conjunct2 [OF row]]]] some]
  have two: "nearest_city_id
        (attractions
           \<lparr>cities = example_cities,
            attractions = [example_poi\<lparr>nearest_city_id := Some 2\<rparr>],
            tourist_attractions_count = [1 \<mapsto> (0, 0), 2 \<mapsto> (1, 1 / 21)]\<rparr> ! 0) = Some 2"
    by simp
  from example_run idx some hit two show ?thesis
    by (intro conjI)
qed

lemma update_nearest_city_idem: "update_nearest_city (update_nearest_city db) = update_nearest_city db"
  by (simp add: update_nearest_city_def select_nearest_update o_def)

lemma upsert_rows_add: "upsert_rows rows table = table ++ upsert_rows rows Map.empty"
proof (induction rows arbitrary: table)
  case Nil
  then show ?case by simp
next
  case (Cons row rows)
  obtain cid cnt pc where row: "row = (cid, cnt, pc)"
    by (cases row)
  have "upsert_rows (row # rows) table = upsert_rows rows (table(cid \<mapsto> (cnt, pc)))"
    unfolding row by simp
  also have "\<dots> = table(cid \<mapsto> (cnt, pc)) ++ upsert_rows rows Map.empty"
    by (rule Cons.IH)
  also have "table(cid \<mapsto> (cnt, pc)) = table ++ [cid \<mapsto> (cnt, pc)]"
    by simp
  also have "(table ++ [cid \<mapsto> (cnt, pc)]) ++ upsert_rows rows Map.empty =
      table ++ ([cid \<mapsto> (cnt, pc)] ++ upsert_rows rows Map.empty)"
    by (rule map_add_assoc [symmetric])
  also have "[cid \<mapsto> (cnt, pc)] ++ upsert_rows rows Map.empty =
      upsert_rows rows [cid \<mapsto> (cnt, pc)]"
    by (rule Cons.IH [symmetric])
  also have "upsert_rows rows [cid \<mapsto> (cnt, pc)] = upsert_rows (row # rows) Map.empty"
    unfolding row by simp
  finally show ?case .
qed

lemma upsert_rows_idem: "upsert_rows rows (upsert_rows rows table) = upsert_rows rows table"
proof -
  have "upsert_rows rows (upsert_rows rows table) =
      (table ++ upsert_rows rows Map.empty) ++ upsert_rows rows Map.empty"
    using upsert_rows_add [of rows "upsert_rows rows table"] upsert_rows_add [of rows table]
    by simp
  also have "\<dots> = table ++ upsert_rows rows Map.empty"
    by (simp add: map_add_def fun_eq_iff split: option.splits)
  also have "\<dots> = upsert_rows rows table"
    by (rule upsert_rows_add [symmetric])
  finally show ?thesis .
qed

lemma update_nearest_city_count:
  "update_nearest_city (db\<lparr>tourist_attractions_count := x\<rparr>) =
     (update_nearest_city db)\<lparr>tourist_attractions_count := x\<rparr>"
  by (simp add: update_nearest_city_def)

lemma assign_idempotent:
  assumes "assign_tourist_attractions_to_cities db = Inr db'"
  shows "assign_tourist_attractions_to_cities db' = Inr db'"
proof -
  from assms obtain rows
    where rows: "summary_rows (attractions (update_nearest_city db)) (cities (update_nearest_city db)) = Inr rows"
      and db': "db' = (update_nearest_city db)\<lparr>tourist_attractions_count :=
          upsert_rows rows (tourist_attractions_count (update_nearest_city db))\<rparr>"
    by (auto simp: assign_tourist_attractions_to_cities_def Let_def split: sum.splits)
  have upd: "update_nearest_city db' = db'"
    unfolding db' update_nearest_city_count update_nearest_city_idem ..
  have "summary_rows (attractions db') (cities db') = Inr rows"
    unfolding db' using rows by simp
  then have "assign_tourist_attractions_to_cities db' =
      Inr (db'\<lparr>tourist_attractions_count := upsert_rows rows (tourist_attractions_count db')\<rparr>)"
    by (simp add: assign_tourist_attractions_to_cities_def Let_def upd)
  also have "db'\<lparr>tourist_attractions_count := upsert_rows rows (tourist_attractions_count db')\<rparr> = db'"
    unfolding db' by (simp add: upsert_rows_idem)
  finally show ?thesis .
qed

text \<open>
  C9: running the aggregator a second time on the database that the first run left
  changes nothing. The database after two runs is the database after one run; when the
  first run commits, the second run commits the same assignments and the same rows of
  counts; and a run that fails is rolled back and leaves the database as it was.
\<close>

theorem aggregator_idempotent:
  "database_after (database_after db) = database_after db
   \<and> (\<forall>db'. assign_tourist_attractions_to_cities db = Inr db' \<longrightarrow>
         assign_tourist_attractions_to_cities db' = Inr db')
   \<and> (\<forall>e. assign_tourist_attractions_to_cities db = Inl e \<longrightarrow> database_after db = db)"
proof -
  have "database_after (database_after db) = database_after db"
  proof (cases "assign_tourist_attractions_to_cities db")
    case (Inl e)
    then show ?thesis by (simp add: database_after_def)
  next
    case (Inr db')
    with assign_idempotent [OF Inr] show ?thesis by (simp add: database_after_def)
  qed
  then show ?thesis
    by (auto simp: assign_idempotent database_after_def)
qed

theorem aggregator_idempotent_witness:
  "assign_tourist_attractions_to_cities example_database =
     Inr \<lparr>cities = example_cities,
          attractions = [example_poi\<lparr>nearest_city_id := Some 2\<rparr>],
          tourist_attractions_count = [1 \<mapsto> (0, 0), 2 \<mapsto> (1, 1 / 21)]\<rparr>
   \<and> assign_tourist_attractions_to_cities
        \<lparr>cities = example_cities,
         attractions = [example_poi\<lparr>nearest_city_id := Some 2\<rparr>],
         tourist_attractions_count = [1 \<mapsto> (0, 0), 2 \<mapsto> (1, 1 / 21)]\<rparr> =
     Inr \<lparr>cities = example_cities,
          attractions = [example_poi\<lparr>nearest_city_id := Some 2\<rparr>],
          tourist_attractions_count = [1 \<mapsto> (0, 0), 2 \<mapsto> (1, 1 / 21)]\<rparr>"
proof -
  note t = aggregator_idempotent [of example_database]
  from example_run mp [OF spec [OF conjunct1 [OF conjunct2 [OF t]]] example_run]
  show ?thesis
    by (intro conjI)
qed

end
